theory Spec2Isabelle
  imports Main
begin

section \<open>Exceptions and HTTP failures\<close>

text \<open>
  Every exception a modelled function can raise is a value.  \<open>HTTPException\<close> carries the
  status code and the \<open>detail\<close> string that the framework returns in the response body.
  \<open>ExpiredSignatureError\<close> and \<open>InvalidTokenError\<close> are the two classes of the token library
  that \<open>verify_token\<close> catches (the second one carries \<open>str(e)\<close>).  The other constructors
  are exceptions that no handler of the modelled code catches.
\<close>

datatype exn =
    HTTPException nat string
  | ExpiredSignatureError
  | InvalidTokenError string
  | InvalidKeyError
  | URLError
  | JSONDecodeError
  | KeyError string
  | MultipleResultsFound
  | ClientError string
  | TypeError
  | ProgrammingError

fun is_http :: "exn \<Rightarrow> bool" where
  "is_http (HTTPException s d) = True"
| "is_http e = False"

fun status_code :: "exn \<Rightarrow> nat option" where
  "status_code (HTTPException s d) = Some s"
| "status_code e = None"

definition HTTP_401_UNAUTHORIZED :: nat where "HTTP_401_UNAUTHORIZED = 401"
definition HTTP_404_NOT_FOUND :: nat where "HTTP_404_NOT_FOUND = 404"
definition HTTP_409_CONFLICT :: nat where "HTTP_409_CONFLICT = 409"

section \<open>Tokens, claims and the key set (app/auth/cognito.py)\<close>

text \<open>
  A claim value is a JSON value as far as the code looks at it: a string, a number, or
  null.  The payload is the decoded JSON object, kept as an association list; Python's
  \<open>payload.get(k)\<close> is \<open>map_of payload k\<close>.
\<close>

datatype jval = JStr string | JNum int | JNull

type_synonym claims = "(string \<times> jval) list"

text \<open>
  Public key material is opaque; a key is named by a number.  An entry of the key set
  is a JSON object: \<open>jwk_kid\<close> is its \<open>"kid"\<close> member (\<open>None\<close> when the member is
  missing, so that \<open>key["kid"]\<close> raises \<open>KeyError\<close>), \<open>jwk_material\<close> the key that
  \<open>RSAAlgorithm.from_jwk\<close> builds (\<open>None\<close> when it raises \<open>InvalidKeyError\<close>).
  The fetched document is the list under \<open>"keys"\<close>, \<open>None\<close> when the document has no
  such member.
\<close>

type_synonym pubkey = nat

record jwk =
  jwk_kid :: "string option"
  jwk_material :: "pubkey option"

type_synonym jwks = "jwk list option"

text \<open>
  A token is either not a well-formed JWS at all, or a header, a payload and a
  signature.  Of the header only \<open>"kid"\<close> is read by the code.  The signature is
  abstracted to the public key under which it verifies with RS256 (\<open>None\<close>: it
  verifies under no key).
\<close>

datatype token =
    Malformed
  | Token (t_kid: "string option") (t_payload: claims) (t_sig: "pubkey option")

text \<open>What one HTTP fetch of the key-set URL gives: \<open>urlopen\<close> fails, the body is not
  JSON, or the body parses to a document.\<close>

datatype fetch_result = FetchFails | BodyNotJson | Body jwks

text \<open>
  \<open>_get_jwks\<close> is wrapped in \<open>lru_cache(maxsize=1)\<close> and takes no argument: the first
  call that returns stores its result for the life of the process, and a call that
  raises stores nothing.  The state is the cache slot together with a counter of the
  fetches made, which the code does not have and which only observes the model.
\<close>

record keystate =
  cache :: "jwks option"
  fetches :: nat

definition get_jwks :: "fetch_result \<Rightarrow> keystate \<Rightarrow> (exn + jwks) \<times> keystate" where
  "get_jwks net st =
     (case cache st of
        Some doc \<Rightarrow> (Inr doc, st)
      | None \<Rightarrow>
          (case net of
             FetchFails \<Rightarrow> (Inl URLError, st\<lparr>fetches := fetches st + 1\<rparr>)
           | BodyNotJson \<Rightarrow> (Inl JSONDecodeError, st\<lparr>fetches := fetches st + 1\<rparr>)
           | Body doc \<Rightarrow> (Inr doc, st\<lparr>cache := Some doc, fetches := fetches st + 1\<rparr>)))"

text \<open>The loop of \<open>_get_public_key\<close> over \<open>jwks["keys"]\<close>; falling out of the loop is
  the 401 raised after it.\<close>

fun find_key :: "string option \<Rightarrow> jwk list \<Rightarrow> exn + pubkey" where
  "find_key hkid [] = Inl (HTTPException HTTP_401_UNAUTHORIZED ''Public key not found'')"
| "find_key hkid (key # keys) =
     (case jwk_kid key of
        None \<Rightarrow> Inl (KeyError ''kid'')
      | Some k \<Rightarrow>
          (case hkid of
             None \<Rightarrow> Inl (KeyError ''kid'')
           | Some h \<Rightarrow>
               if k = h then
                 (case jwk_material key of None \<Rightarrow> Inl InvalidKeyError | Some pk \<Rightarrow> Inr pk)
               else find_key hkid keys))"

definition get_public_key ::
  "fetch_result \<Rightarrow> token \<Rightarrow> keystate \<Rightarrow> (exn + pubkey) \<times> keystate" where
  "get_public_key net tok st =
     (case tok of
        Malformed \<Rightarrow> (Inl (InvalidTokenError ''Not enough segments''), st)
      | Token hkid p sg \<Rightarrow>
          (case get_jwks net st of
             (Inl e, st') \<Rightarrow> (Inl e, st')
           | (Inr None, st') \<Rightarrow> (Inl (KeyError ''keys''), st')
           | (Inr (Some keys), st') \<Rightarrow> (find_key hkid keys, st')))"

text \<open>
  The token library is not part of the sources and no version of it is fixed there.
  What differs between its versions, and what it leaves to Python, is a parameter:
  whether an \<open>iat\<close> claim in the future is refused (2.6 and later), whether the types
  of \<open>sub\<close> and \<open>jti\<close> are checked (2.10 and later), and Python's \<open>int\<close> on a string
  (\<open>None\<close> when it raises \<open>ValueError\<close>).
\<close>

record pyjwt =
  validates_iat_future :: bool
  validates_sub_jti :: bool
  int_of_str :: "string \<Rightarrow> int option"

text \<open>\<open>int(payload[name])\<close>: the integer, \<open>ValueError\<close>, or \<open>TypeError\<close> for null.\<close>

datatype int_result = IntOk int | IntValueError | IntTypeError

fun py_int :: "pyjwt \<Rightarrow> jval \<Rightarrow> int_result" where
  "py_int lib (JNum n) = IntOk n"
| "py_int lib (JStr s) = (case int_of_str lib s of Some n \<Rightarrow> IntOk n | None \<Rightarrow> IntValueError)"
| "py_int lib JNull = IntTypeError"

text \<open>Python's truth value of a claim.\<close>

fun truthy :: "jval \<Rightarrow> bool" where
  "truthy (JStr s) = (s \<noteq> [])"
| "truthy (JNum n) = (n \<noteq> 0)"
| "truthy JNull = False"

text \<open>
  The checks of the registered claims that \<open>jwt.decode\<close> makes after the signature,
  each giving the exception it raises, if any.  \<open>now\<close> is the clock in whole seconds.
  A \<open>ValueError\<close> of \<open>int\<close> is turned by the library into an exception of the
  \<open>InvalidTokenError\<close> family; a \<open>TypeError\<close> is not caught by it.
\<close>

definition validate_iat :: "pyjwt \<Rightarrow> int \<Rightarrow> claims \<Rightarrow> exn option" where
  "validate_iat lib now p =
     (case map_of p ''iat'' of
        None \<Rightarrow> None
      | Some v \<Rightarrow>
          (case py_int lib v of
             IntTypeError \<Rightarrow> Some TypeError
           | IntValueError \<Rightarrow>
               Some (InvalidTokenError ''Issued At claim (iat) must be an integer.'')
           | IntOk iat \<Rightarrow>
               if validates_iat_future lib \<and> iat > now
               then Some (InvalidTokenError ''The token is not yet valid (iat)'')
               else None))"

definition validate_nbf :: "pyjwt \<Rightarrow> int \<Rightarrow> claims \<Rightarrow> exn option" where
  "validate_nbf lib now p =
     (case map_of p ''nbf'' of
        None \<Rightarrow> None
      | Some v \<Rightarrow>
          (case py_int lib v of
             IntTypeError \<Rightarrow> Some TypeError
           | IntValueError \<Rightarrow>
               Some (InvalidTokenError ''Not Before claim (nbf) must be an integer.'')
           | IntOk nbf \<Rightarrow>
               if nbf > now then Some (InvalidTokenError ''The token is not yet valid (nbf)'')
               else None))"

definition validate_exp :: "pyjwt \<Rightarrow> int \<Rightarrow> claims \<Rightarrow> exn option" where
  "validate_exp lib now p =
     (case map_of p ''exp'' of
        None \<Rightarrow> None
      | Some v \<Rightarrow>
          (case py_int lib v of
             IntTypeError \<Rightarrow> Some TypeError
           | IntValueError \<Rightarrow>
               Some (InvalidTokenError ''Expiration Time claim (exp) must be an integer.'')
           | IntOk e \<Rightarrow> if e \<le> now then Some ExpiredSignatureError else None))"

text \<open>The audience check when no \<open>audience\<close> argument is passed: a token that carries
  an audience is refused.\<close>

definition validate_aud :: "claims \<Rightarrow> exn option" where
  "validate_aud p =
     (case map_of p ''aud'' of
        None \<Rightarrow> None
      | Some v \<Rightarrow> if truthy v then Some (InvalidTokenError ''Invalid audience'') else None)"

definition validate_sub :: "claims \<Rightarrow> exn option" where
  "validate_sub p =
     (case map_of p ''sub'' of
        None \<Rightarrow> None
      | Some (JStr s) \<Rightarrow> None
      | Some v \<Rightarrow> Some (InvalidTokenError ''Subject must be a string''))"

definition validate_jti :: "claims \<Rightarrow> exn option" where
  "validate_jti p =
     (case map_of p ''jti'' of
        None \<Rightarrow> None
      | Some (JStr s) \<Rightarrow> None
      | Some v \<Rightarrow> Some (InvalidTokenError ''JWT ID must be a string''))"

fun first_error :: "exn option list \<Rightarrow> exn option" where
  "first_error [] = None"
| "first_error (Some e # rest) = Some e"
| "first_error (None # rest) = first_error rest"

definition validate_claims :: "pyjwt \<Rightarrow> bool \<Rightarrow> int \<Rightarrow> claims \<Rightarrow> exn option" where
  "validate_claims lib verify_aud now p =
     first_error
       [validate_iat lib now p,
        validate_nbf lib now p,
        validate_exp lib now p,
        (if verify_aud then validate_aud p else None),
        (if validates_sub_jti lib then validate_sub p else None),
        (if validates_sub_jti lib then validate_jti p else None)]"

text \<open>
  \<open>jwt.decode(token, public_key, algorithms=["RS256"], options={"verify_aud": ...})\<close>
  with no \<open>audience\<close> argument: the structure, the signature, then the registered
  claims in the library's order.  The messages are the library's.
\<close>

definition jwt_decode :: "pyjwt \<Rightarrow> bool \<Rightarrow> int \<Rightarrow> token \<Rightarrow> pubkey \<Rightarrow> exn + claims" where
  "jwt_decode lib verify_aud now tok public_key =
     (case tok of
        Malformed \<Rightarrow> Inl (InvalidTokenError ''Not enough segments'')
      | Token hkid p sg \<Rightarrow>
          if sg \<noteq> Some public_key then Inl (InvalidTokenError ''Signature verification failed'')
          else
            (case validate_claims lib verify_aud now p of
               Some e \<Rightarrow> Inl e
             | None \<Rightarrow> Inr p))"

text \<open>The two \<open>except\<close> clauses of \<open>verify_token\<close>; any other exception passes through.\<close>

fun handle_jwt :: "exn \<Rightarrow> exn" where
  "handle_jwt ExpiredSignatureError = HTTPException HTTP_401_UNAUTHORIZED ''Token expired''"
| "handle_jwt (InvalidTokenError msg) = HTTPException HTTP_401_UNAUTHORIZED msg"
| "handle_jwt e = e"

definition verify_token ::
  "pyjwt \<Rightarrow> fetch_result \<Rightarrow> int \<Rightarrow> token \<Rightarrow> keystate \<Rightarrow> (exn + claims) \<times> keystate" where
  "verify_token lib net now tok st =
     (case get_public_key net tok st of
        (Inl e, st') \<Rightarrow> (Inl (handle_jwt e), st')
      | (Inr public_key, st') \<Rightarrow>
          (case jwt_decode lib False now tok public_key of
             Inl e \<Rightarrow> (Inl (handle_jwt e), st')
           | Inr payload \<Rightarrow> (Inr payload, st')))"

section \<open>The data model (app/models/tenant.py, app/models/base.py)\<close>

text \<open>
  Identifiers are UUIDs, kept in their textual form.  The timestamp columns are filled
  by the store and are left out.  \<open>company_id\<close> is the column that \<open>TenantMixin\<close> adds:
  \<open>User\<close>, \<open>Role\<close> and \<open>UserRole\<close> have it, \<open>Company\<close>, \<open>Permission\<close> and
  \<open>RolePermission\<close> do not.
\<close>

type_synonym uuid = string

record Company =
  c_id :: uuid
  c_name :: string
  c_slug :: string

record User =
  u_id :: uuid
  cognito_sub :: string
  email :: string
  is_active :: bool
  is_superadmin :: bool
  u_company_id :: uuid

record Permission =
  p_id :: uuid
  p_name :: string
  p_description :: "string option"

record Role =
  r_id :: uuid
  r_name :: string
  r_company_id :: uuid

record RolePermission =
  rp_role_id :: uuid
  rp_permission_id :: uuid

record UserRole =
  ur_user_id :: uuid
  ur_role_id :: uuid
  ur_company_id :: uuid

datatype table = Companies | Users | Permissions | Roles | RolePermissions | UserRoles

section \<open>The database session\<close>

text \<open>
  A statement sent to the store on a session: a query on a table, or
  \<open>SET LOCAL name = value\<close>, whose value is written into the statement or passed as a
  bound parameter.  The session record holds the rows, the settings of the underlying
  connection (\<open>conn_settings\<close>, which outlive a transaction and which no modelled code
  writes), the settings made with \<open>SET LOCAL\<close> in the open transaction
  (\<open>local_settings\<close>), and the statements executed in the open transaction, oldest
  first.  The store reads a setting from the local ones first.
\<close>

datatype setting_value = Literal string | BoundParam string

datatype stmt = Query table | SetLocal string setting_value

record session =
  companies :: "Company list"
  users :: "User list"
  permissions :: "Permission list"
  roles :: "Role list"
  role_permissions :: "RolePermission list"
  user_roles :: "UserRole list"
  conn_settings :: "(string \<times> string) list"
  local_settings :: "(string \<times> string) list"
  executed :: "stmt list"

definition current_setting :: "string \<Rightarrow> session \<Rightarrow> string option" where
  "current_setting name db =
     (case map_of (local_settings db) name of
        Some v \<Rightarrow> Some v
      | None \<Rightarrow> map_of (conn_settings db) name)"

definition execute_query :: "table \<Rightarrow> session \<Rightarrow> session" where
  "execute_query t db = db\<lparr>executed := executed db @ [Query t]\<rparr>"

text \<open>
  \<open>SET LOCAL\<close> takes its value as part of the statement.  The drivers of an
  asynchronous session (\<open>postgresql+psycopg\<close> in \<open>database_url\<close>) hand a bound
  parameter to the server as a parameter of the statement, which the store refuses for
  \<open>SET\<close>: the statement raises \<open>ProgrammingError\<close> and nothing is set.
\<close>

fun set_local :: "string \<Rightarrow> setting_value \<Rightarrow> session \<Rightarrow> exn + session" where
  "set_local name (Literal v) db =
     Inr (db\<lparr>local_settings := (name, v) # local_settings db,
             executed := executed db @ [SetLocal name (Literal v)]\<rparr>)"
| "set_local name (BoundParam v) db = Inl ProgrammingError"

datatype tx_end = Commit | Rollback

text \<open>
  Modelled from the spec: \<open>app/database.py\<close> (\<open>get_db\<close>, the session factory) is not
  among the sources; the spec says a request's transaction ends by commit or rollback
  and that the marker's lifetime is strictly the transaction.  Only the effect on the
  connection is modelled: both ways of ending drop the local settings and start an
  empty statement history.
\<close>

fun end_transaction :: "tx_end \<Rightarrow> session \<Rightarrow> session" where
  "end_transaction Commit db = db\<lparr>local_settings := [], executed := []\<rparr>"
| "end_transaction Rollback db = db\<lparr>local_settings := [], executed := []\<rparr>"

text \<open>\<open>Result.scalar_one_or_none()\<close>.\<close>

fun scalar_one_or_none :: "'a list \<Rightarrow> exn + 'a option" where
  "scalar_one_or_none [] = Inr None"
| "scalar_one_or_none [x] = Inr (Some x)"
| "scalar_one_or_none (x # y # zs) = Inl MultipleResultsFound"

section \<open>Tenant activation (app/dependencies.py)\<close>

definition marker :: string where
  "marker = ''app.current_company_id''"

text \<open>
  \<open>select(User).where(User.cognito_sub == cognito_sub)\<close>: the rows whose column
  equals a string claim.  An absent or null claim is Python's \<open>None\<close> and compares with
  \<open>IS NULL\<close>: the column is not nullable, so no row is returned.  A number is passed
  to the store as it is, which refuses to compare it with the text column: the
  statement raises \<open>ProgrammingError\<close>.
\<close>

fun select_users_by_sub :: "jval option \<Rightarrow> User list \<Rightarrow> exn + User list" where
  "select_users_by_sub None rows = Inr []"
| "select_users_by_sub (Some JNull) rows = Inr []"
| "select_users_by_sub (Some (JStr s)) rows = Inr (filter (\<lambda>u. cognito_sub u = s) rows)"
| "select_users_by_sub (Some (JNum n)) rows = Inl ProgrammingError"

text \<open>
  \<open>get_tenant_db\<close> up to its \<open>yield\<close>: the result is the exception raised, or the user
  found (the session yielded is the second component).  The marker is set with
  \<open>text("SET LOCAL app.current_company_id = :cid")\<close> and the value bound to \<open>:cid\<close>.
\<close>

definition get_tenant_db :: "claims \<Rightarrow> session \<Rightarrow> (exn + User) \<times> session" where
  "get_tenant_db current_user db =
     (case select_users_by_sub (map_of current_user ''sub'') (users db) of
        Inl e \<Rightarrow> (Inl e, db)
      | Inr rows \<Rightarrow>
          (let db1 = execute_query Users db
           in case scalar_one_or_none rows of
                Inl e \<Rightarrow> (Inl e, db1)
              | Inr None \<Rightarrow>
                  (Inl (HTTPException HTTP_401_UNAUTHORIZED
                          ''User not provisioned. Contact your administrator.''), db1)
              | Inr (Some user) \<Rightarrow>
                  (case set_local marker (BoundParam (u_company_id user)) db1 of
                     Inl e \<Rightarrow> (Inl e, db1)
                   | Inr db2 \<Rightarrow> (Inr user, db2))))"

text \<open>
  A request on a tenant-scoped route: the dependency runs, the handler then issues its
  queries on the yielded session, and the transaction ends.  The handler is given by
  the tables it queries, in order.  The result lists, for each handler query, the table
  and the value of the marker that the store sees when the query runs.
\<close>

fun run_handler :: "table list \<Rightarrow> session \<Rightarrow> (table \<times> string option) list \<times> session" where
  "run_handler [] db = ([], db)"
| "run_handler (t # ts) db =
     (let db1 = execute_query t db;
          (seen, db2) = run_handler ts db1
      in ((t, current_setting marker db1) # seen, db2))"

definition tenant_request ::
  "claims \<Rightarrow> table list \<Rightarrow> tx_end \<Rightarrow> session
     \<Rightarrow> (exn + (table \<times> string option) list) \<times> session" where
  "tenant_request current_user handler fin db =
     (case get_tenant_db current_user db of
        (Inl e, db1) \<Rightarrow> (Inl e, end_transaction fin db1)
      | (Inr user, db1) \<Rightarrow>
          (let (seen, db2) = run_handler handler db1
           in (Inr seen, end_transaction fin db2)))"

section \<open>Provisioning (app/routers/admin.py, app/schemas/admin.py)\<close>

record CreateCompanyRequest =
  body_name :: string
  body_slug :: string

record ProvisionUserRequest =
  body_cognito_sub :: string
  body_email :: string

text \<open>\<open>User(id=..., cognito_sub=..., email=..., company_id=...)\<close>: the two flags are not
  passed and take the column defaults of the model class when the row is inserted.\<close>

definition new_User :: "uuid \<Rightarrow> string \<Rightarrow> string \<Rightarrow> uuid \<Rightarrow> User" where
  "new_User ident sub mail cid =
     \<lparr>u_id = ident, cognito_sub = sub, email = mail,
      is_active = True, is_superadmin = False, u_company_id = cid\<rparr>"

definition quoted :: "string \<Rightarrow> string" where
  "quoted s = [CHR 0x27] @ s @ [CHR 0x27]"

text \<open>\<open>db.add(row); await db.commit(); await db.refresh(row)\<close>: the row is stored, the
  transaction ends by commit, and the refresh reads the row back.\<close>

definition create_company ::
  "CreateCompanyRequest \<Rightarrow> uuid \<Rightarrow> session \<Rightarrow> (exn + Company) \<times> session" where
  "create_company body fresh db =
     (let db1 = execute_query Companies db
      in case scalar_one_or_none (filter (\<lambda>c. c_slug c = body_slug body) (companies db1)) of
           Inl e \<Rightarrow> (Inl e, db1)
         | Inr (Some existing) \<Rightarrow>
             (Inl (HTTPException HTTP_409_CONFLICT
                     (''A company with slug '' @ quoted (body_slug body) @ '' already exists.'')),
              db1)
         | Inr None \<Rightarrow>
             (let company = \<lparr>c_id = fresh, c_name = body_name body, c_slug = body_slug body\<rparr>;
                  db2 = end_transaction Commit (db1\<lparr>companies := companies db1 @ [company]\<rparr>)
              in (Inr company, execute_query Companies db2)))"

text \<open>What \<open>cognito.admin_get_user\<close> does: it returns, or raises \<open>ClientError\<close> with an
  error code.\<close>

datatype admin_get_user_result = CognitoUser | CognitoError string

definition provision_user ::
  "uuid \<Rightarrow> ProvisionUserRequest \<Rightarrow> admin_get_user_result \<Rightarrow> uuid \<Rightarrow> session
     \<Rightarrow> (exn + User) \<times> session" where
  "provision_user company_id body cognito fresh db =
     (let db1 = execute_query Companies db
      in case scalar_one_or_none (filter (\<lambda>c. c_id c = company_id) (companies db1)) of
           Inl e \<Rightarrow> (Inl e, db1)
         | Inr None \<Rightarrow>
             (Inl (HTTPException HTTP_404_NOT_FOUND
                     (''Company '' @ company_id @ '' not found.'')), db1)
         | Inr (Some company) \<Rightarrow>
             (case cognito of
                CognitoError code \<Rightarrow>
                  if code = ''UserNotFoundException'' then
                    (Inl (HTTPException HTTP_404_NOT_FOUND
                            (''Cognito user '' @ quoted (body_cognito_sub body)
                               @ '' not found in user pool.'')), db1)
                  else (Inl (ClientError code), db1)
              | CognitoUser \<Rightarrow>
                  (let db2 = execute_query Users db1
                   in case scalar_one_or_none
                             (filter (\<lambda>u. cognito_sub u = body_cognito_sub body) (users db2)) of
                        Inl e \<Rightarrow> (Inl e, db2)
                      | Inr (Some existing) \<Rightarrow>
                          (Inl (HTTPException HTTP_409_CONFLICT
                                  (''User with cognito_sub '' @ quoted (body_cognito_sub body)
                                     @ '' is already provisioned.'')), db2)
                      | Inr None \<Rightarrow>
                          (let user = new_User fresh (body_cognito_sub body) (body_email body)
                                        company_id;
                               db3 = end_transaction Commit (db2\<lparr>users := users db2 @ [user]\<rparr>)
                           in (Inr user, execute_query Users db3)))))"

section \<open>The bootstrap script (scripts/seed_superadmin.py)\<close>

definition PLATFORM_COMPANY_SLUG :: string where
  "PLATFORM_COMPANY_SLUG = ''__platform__''"

definition PLATFORM_COMPANY_NAME :: string where
  "PLATFORM_COMPANY_NAME = ''Platform (internal)''"

fun promote :: "string \<Rightarrow> User list \<Rightarrow> User list" where
  "promote sub [] = []"
| "promote sub (u # us) =
     (if cognito_sub u = sub then u\<lparr>is_superadmin := True\<rparr> # us else u # promote sub us)"

text \<open>
  \<open>seed\<close> runs in a session of its own, closed when the function returns: what was
  flushed but not committed is discarded.  The result is the line printed.  The branch
  that finds the user already a super-admin returns without a commit, so a platform
  company created in the same run is not kept.
\<close>

definition get_or_create_platform :: "uuid \<Rightarrow> session \<Rightarrow> exn + Company \<times> session" where
  "get_or_create_platform fresh_company db =
     (case scalar_one_or_none (filter (\<lambda>c. c_slug c = PLATFORM_COMPANY_SLUG) (companies db)) of
        Inl e \<Rightarrow> Inl e
      | Inr (Some platform) \<Rightarrow> Inr (platform, db)
      | Inr None \<Rightarrow>
          (let platform = \<lparr>c_id = fresh_company, c_name = PLATFORM_COMPANY_NAME,
                           c_slug = PLATFORM_COMPANY_SLUG\<rparr>
           in Inr (platform, db\<lparr>companies := companies db @ [platform]\<rparr>)))"

definition seed :: "string \<Rightarrow> string \<Rightarrow> uuid \<Rightarrow> uuid \<Rightarrow> session \<Rightarrow> (exn + string) \<times> session" where
  "seed sub mail fresh_company fresh_user db =
     (case get_or_create_platform fresh_company db of
        Inl e \<Rightarrow> (Inl e, db)
      | Inr (platform, db1) \<Rightarrow>
          (case scalar_one_or_none (filter (\<lambda>u. cognito_sub u = sub) (users db1)) of
             Inl e \<Rightarrow> (Inl e, db)
           | Inr (Some existing) \<Rightarrow>
               if is_superadmin existing then
                 (Inr (''User '' @ mail @ '' is already a super-admin.''), db)
               else
                 (Inr (''User '' @ mail @ '' promoted to super-admin.''),
                  db1\<lparr>users := promote sub (users db1)\<rparr>)
           | Inr None \<Rightarrow>
               (Inr (''Super-admin created: '' @ mail @ '' (sub='' @ sub @ '')''),
                db1\<lparr>users := users db1
                        @ [(new_User fresh_user sub mail (c_id platform))
                             \<lparr>is_superadmin := True\<rparr>]\<rparr>)))"

section \<open>The super-admin gate and the permission check\<close>





text \<open>
  Modelled from the spec: no function of the sources computes \<open>hasPermission\<close>; only
  the tables it reads are declared (\<open>UserRole\<close>, \<open>RolePermission\<close>, \<open>Permission\<close>).  The
  spec (4.5): does there exist a UserRole for this user within this company, joined to
  a RolePermission, joined to a Permission whose name matches.  Granting inserts a
  row; revoking deletes the row with that composite key.
\<close>

definition has_permission :: "uuid \<Rightarrow> uuid \<Rightarrow> string \<Rightarrow> session \<Rightarrow> bool" where
  "has_permission user_id company_id name db =
     list_ex (\<lambda>ur. ur_user_id ur = user_id \<and> ur_company_id ur = company_id \<and>
        list_ex (\<lambda>rp. rp_role_id rp = ur_role_id ur \<and>
           list_ex (\<lambda>p. p_id p = rp_permission_id rp \<and> p_name p = name) (permissions db))
          (role_permissions db))
       (user_roles db)"

definition grant_role_permission :: "uuid \<Rightarrow> uuid \<Rightarrow> session \<Rightarrow> session" where
  "grant_role_permission role_id permission_id db =
     db\<lparr>role_permissions := role_permissions db
           @ [\<lparr>rp_role_id = role_id, rp_permission_id = permission_id\<rparr>]\<rparr>"

definition grant_user_role :: "uuid \<Rightarrow> uuid \<Rightarrow> uuid \<Rightarrow> session \<Rightarrow> session" where
  "grant_user_role user_id role_id company_id db =
     db\<lparr>user_roles := user_roles db
           @ [\<lparr>ur_user_id = user_id, ur_role_id = role_id, ur_company_id = company_id\<rparr>]\<rparr>"

definition revoke_role_permission :: "uuid \<Rightarrow> uuid \<Rightarrow> session \<Rightarrow> session" where
  "revoke_role_permission role_id permission_id db =
     db\<lparr>role_permissions :=
          filter (\<lambda>rp. \<not> (rp_role_id rp = role_id \<and> rp_permission_id rp = permission_id))
            (role_permissions db)\<rparr>"

definition revoke_user_role :: "uuid \<Rightarrow> uuid \<Rightarrow> session \<Rightarrow> session" where
  "revoke_user_role user_id role_id db =
     db\<lparr>user_roles :=
          filter (\<lambda>ur. \<not> (ur_user_id ur = user_id \<and> ur_role_id ur = role_id)) (user_roles db)\<rparr>"

section \<open>Predicates and sample data used in the statements\<close>

text \<open>The key set that \<open>_get_jwks\<close> will return: it is cached, or the cache is empty
  and the fetch delivers it.\<close>

definition key_set_known :: "fetch_result \<Rightarrow> keystate \<Rightarrow> jwk list \<Rightarrow> bool" where
  "key_set_known net st keys \<longleftrightarrow>
     cache st = Some (Some keys) \<or> (cache st = None \<and> net = Body (Some keys))"

text \<open>The expiry claim is present, an integer, and after the clock.\<close>

definition unexpired :: "pyjwt \<Rightarrow> int \<Rightarrow> claims \<Rightarrow> bool" where
  "unexpired lib now p =
     (case map_of p ''exp'' of
        None \<Rightarrow> False
      | Some v \<Rightarrow> (case py_int lib v of IntOk e \<Rightarrow> now < e | IntValueError \<Rightarrow> False
                    | IntTypeError \<Rightarrow> False))"

text \<open>A time claim is absent, or an integer not after the clock.\<close>

fun not_in_future :: "pyjwt \<Rightarrow> int \<Rightarrow> jval option \<Rightarrow> bool" where
  "not_in_future lib now None = True"
| "not_in_future lib now (Some v) =
     (case py_int lib v of IntOk i \<Rightarrow> i \<le> now | IntValueError \<Rightarrow> False
      | IntTypeError \<Rightarrow> False)"

fun string_or_absent :: "jval option \<Rightarrow> bool" where
  "string_or_absent None = True"
| "string_or_absent (Some (JStr s)) = True"
| "string_or_absent (Some (JNum n)) = False"
| "string_or_absent (Some JNull) = False"

text \<open>The other registered claims are such that no version of the library refuses
  them: \<open>iat\<close> and \<open>nbf\<close> not in the future, \<open>sub\<close> and \<open>jti\<close> strings, each when
  present.\<close>

definition registered_claims_ok :: "pyjwt \<Rightarrow> int \<Rightarrow> claims \<Rightarrow> bool" where
  "registered_claims_ok lib now p \<longleftrightarrow>
     not_in_future lib now (map_of p ''iat'') \<and> not_in_future lib now (map_of p ''nbf'')
     \<and> string_or_absent (map_of p ''sub'') \<and> string_or_absent (map_of p ''jti'')"

text \<open>The subject claim is a string that no row of the users table carries, or it is
  null or absent.\<close>

definition no_user_matches :: "claims \<Rightarrow> session \<Rightarrow> bool" where
  "no_user_matches current_user db =
     (case map_of current_user ''sub'' of
        None \<Rightarrow> True
      | Some JNull \<Rightarrow> True
      | Some (JStr s) \<Rightarrow> list_all (\<lambda>u. cognito_sub u \<noteq> s) (users db)
      | Some (JNum n) \<Rightarrow> False)"

definition not_provisioned :: exn where
  "not_provisioned =
     HTTPException HTTP_401_UNAUTHORIZED ''User not provisioned. Contact your administrator.''"

text \<open>Sample data.  The sample library is a recent one; its \<open>int\<close> reads plain
  decimal digits only, which is all the samples need.\<close>

fun decimal :: "nat \<Rightarrow> string \<Rightarrow> nat option" where
  "decimal acc [] = Some acc"
| "decimal acc (c # cs) =
     (if (48::nat) \<le> of_char c \<and> of_char c \<le> (57::nat)
      then decimal (10 * acc + (of_char c - 48)) cs else None)"

definition ex_lib :: pyjwt where
  "ex_lib = \<lparr>validates_iat_future = True, validates_sub_jti = True,
             int_of_str = (\<lambda>s. if s = [] then None else map_option int (decimal 0 s))\<rparr>"

definition ex_keys :: "jwk list" where
  "ex_keys = [\<lparr>jwk_kid = Some ''old'', jwk_material = Some 1\<rparr>]"

definition ex_rotated :: "jwk list" where
  "ex_rotated = [\<lparr>jwk_kid = Some ''new'', jwk_material = Some 2\<rparr>]"

definition ex_cached :: keystate where
  "ex_cached = \<lparr>cache = Some (Some ex_keys), fetches = 1\<rparr>"

definition ex_empty :: keystate where
  "ex_empty = \<lparr>cache = None, fetches = 0\<rparr>"

definition ex_claims :: claims where
  "ex_claims = [(''sub'', JStr ''sub-123''), (''exp'', JNum 2000)]"

definition ex_immature :: claims where
  "ex_immature = [(''sub'', JStr ''sub-123''), (''exp'', JNum 2000), (''nbf'', JNum 3000)]"

definition ex_user :: User where
  "ex_user = \<lparr>u_id = ''u1'', cognito_sub = ''sub-123'', email = ''a@example.org'',
              is_active = True, is_superadmin = False, u_company_id = ''c1''\<rparr>"

definition ex_db :: session where
  "ex_db = \<lparr>companies = [\<lparr>c_id = ''c1'', c_name = ''Acme'', c_slug = ''acme''\<rparr>],
            users = [ex_user],
            permissions = [\<lparr>p_id = ''p1'', p_name = ''settings:read'', p_description = None\<rparr>],
            roles = [\<lparr>r_id = ''r1'', r_name = ''viewer'', r_company_id = ''c1''\<rparr>],
            role_permissions = [],
            user_roles = [],
            conn_settings = [],
            local_settings = [],
            executed = []\<rparr>"



definition ex_body :: ProvisionUserRequest where
  "ex_body = \<lparr>body_cognito_sub = ''sub-456'', body_email = ''b@example.org''\<rparr>"

definition ex_permission :: Permission where
  "ex_permission = \<lparr>p_id = ''p1'', p_name = ''settings:read'', p_description = None\<rparr>"

section \<open>Token verification\<close>

lemma find_key_absent:
  "\<forall>key \<in> set keys. jwk_kid key \<noteq> None \<and> jwk_kid key \<noteq> Some k \<Longrightarrow>
   find_key (Some k) keys = Inl (HTTPException HTTP_401_UNAUTHORIZED ''Public key not found'')"
  by (induction keys) (auto split: option.splits)

lemma get_public_key_cached:
  "cache st = Some (Some keys) \<Longrightarrow>
   get_public_key net (Token hk p sg) st = (find_key hk keys, st)"
  by (simp add: get_public_key_def get_jwks_def)

lemma get_public_key_fetched:
  "cache st = None \<Longrightarrow>
   get_public_key (Body (Some keys)) (Token hk p sg) st
     = (find_key hk keys, st\<lparr>cache := Some (Some keys), fetches := fetches st + 1\<rparr>)"
  by (simp add: get_public_key_def get_jwks_def)

lemma get_public_key_known:
  "key_set_known net st keys \<Longrightarrow> fst (get_public_key net (Token hk p sg) st) = find_key hk keys"
  unfolding key_set_known_def
  by (auto simp: get_public_key_cached get_public_key_fetched)

lemma validate_time_ok:
  "not_in_future lib now (map_of p ''iat'') \<Longrightarrow> validate_iat lib now p = None"
  "not_in_future lib now (map_of p ''nbf'') \<Longrightarrow> validate_nbf lib now p = None"
  by (auto simp: validate_iat_def validate_nbf_def split: option.splits int_result.splits)

lemma validate_exp_ok: "unexpired lib now p \<Longrightarrow> validate_exp lib now p = None"
  by (auto simp: validate_exp_def unexpired_def split: option.splits int_result.splits)

lemma validate_text_ok:
  "string_or_absent (map_of p ''sub'') \<Longrightarrow> validate_sub p = None"
  "string_or_absent (map_of p ''jti'') \<Longrightarrow> validate_jti p = None"
  by (auto simp: validate_sub_def validate_jti_def split: option.splits jval.splits)

lemma validate_claims_ok:
  assumes "unexpired lib now p" "registered_claims_ok lib now p"
  shows "validate_claims lib False now p = None"
  using assms
  by (simp add: validate_claims_def registered_claims_ok_def validate_time_ok validate_exp_ok
        validate_text_ok)

lemma jwt_decode_valid:
  "unexpired lib now p \<Longrightarrow> registered_claims_ok lib now p \<Longrightarrow>
   jwt_decode lib False now (Token hk p (Some pk)) pk = Inr p"
  by (simp add: jwt_decode_def validate_claims_ok)

lemma verify_token_valid:
  assumes "key_set_known net st keys" "find_key hk keys = Inr pk"
    and "unexpired lib now p" "registered_claims_ok lib now p"
  shows "fst (verify_token lib net now (Token hk p (Some pk)) st) = Inr p"
proof -
  have "fst (get_public_key net (Token hk p (Some pk)) st) = Inr pk"
    using assms(1,2) by (simp add: get_public_key_known)
  then obtain st' where "get_public_key net (Token hk p (Some pk)) st = (Inr pk, st')"
    by (cases "get_public_key net (Token hk p (Some pk)) st") simp
  then show ?thesis
    using jwt_decode_valid [OF assms(3,4)] by (simp add: verify_token_def)
qed

lemma audience_irrelevant:
  "unexpired lib now ((''aud'', aud) # p) = unexpired lib now p"
  "registered_claims_ok lib now ((''aud'', aud) # p) = registered_claims_ok lib now p"
  by (simp_all add: unexpired_def registered_claims_ok_def)

lemma ex_keys_no_new:
  "\<forall>key \<in> set ex_keys. jwk_kid key \<noteq> None \<and> jwk_kid key \<noteq> Some ''new''"
  by (simp add: ex_keys_def)

lemma ex_keys_old: "find_key (Some ''old'') ex_keys = Inr 1"
  by (simp add: ex_keys_def)

lemma ex_claims_ok: "unexpired ex_lib 1000 ex_claims" "registered_claims_ok ex_lib 1000 ex_claims"
  by (simp_all add: unexpired_def registered_claims_ok_def ex_claims_def)

text \<open>
  C4, as the code has it.  When the header names a key identifier that no entry of
  the key set carries, verification fails with 401 "Public key not found".  With a
  cached key set nothing is fetched: the state, cache and fetch count, is returned as it
  was.  With an empty cache one fetch is made, and its key set is then cached.  The
  function is total, so the failure is reached without looping.
\<close>

theorem unknown_kid_no_refetch:
  assumes "\<forall>key \<in> set keys. jwk_kid key \<noteq> None \<and> jwk_kid key \<noteq> Some k"
  shows "(cache st = Some (Some keys) \<longrightarrow>
            verify_token lib net now (Token (Some k) p sg) st
              = (Inl (HTTPException HTTP_401_UNAUTHORIZED ''Public key not found''), st))
       \<and> (cache st = None \<longrightarrow>
            verify_token lib (Body (Some keys)) now (Token (Some k) p sg) st
              = (Inl (HTTPException HTTP_401_UNAUTHORIZED ''Public key not found''),
                 st\<lparr>cache := Some (Some keys), fetches := fetches st + 1\<rparr>))"
  using find_key_absent [OF assms]
  by (simp add: verify_token_def get_public_key_cached get_public_key_fetched)

theorem unknown_kid_no_refetch_witness:
  "list_all (\<lambda>key. jwk_kid key \<noteq> None \<and> jwk_kid key \<noteq> Some ''new'') ex_keys
   \<and> cache ex_cached = Some (Some ex_keys)
   \<and> verify_token ex_lib (Body (Some ex_rotated)) 1000 (Token (Some ''new'') ex_claims (Some 2))
        ex_cached
       = (Inl (HTTPException HTTP_401_UNAUTHORIZED ''Public key not found''), ex_cached)
   \<and> cache ex_empty = None
   \<and> verify_token ex_lib (Body (Some ex_keys)) 1000 (Token (Some ''new'') ex_claims (Some 2))
        ex_empty
       = (Inl (HTTPException HTTP_401_UNAUTHORIZED ''Public key not found''),
          ex_empty\<lparr>cache := Some (Some ex_keys), fetches := fetches ex_empty + 1\<rparr>)"
proof -
  have c: "cache ex_cached = Some (Some ex_keys)" by (simp add: ex_cached_def)
  have e: "cache ex_empty = None" by (simp add: ex_empty_def)
  show ?thesis
    using ex_keys_no_new c e
      unknown_kid_no_refetch [OF ex_keys_no_new,
        of ex_cached ex_lib "Body (Some ex_rotated)" 1000 ex_claims "Some 2"]
      unknown_kid_no_refetch [OF ex_keys_no_new,
        of ex_empty ex_lib FetchFails 1000 ex_claims "Some 2"]
    by (simp add: list_all_iff)
qed

text \<open>
  C4 as stated fails: the cache holds the key set from before a rotation, the token is
  signed by the new key, which a fetch would deliver; verification fails with 401 and
  the number of fetches is not one more than before.
\<close>

theorem unknown_kid_refresh_counterexample:
  "fst (verify_token ex_lib (Body (Some ex_rotated)) 1000
          (Token (Some ''new'') ex_claims (Some 2)) ex_cached)
     = Inl (HTTPException 401 ''Public key not found'')
   \<and> fetches (snd (verify_token ex_lib (Body (Some ex_rotated)) 1000
                      (Token (Some ''new'') ex_claims (Some 2)) ex_cached))
       \<noteq> fetches ex_cached + 1"
  by (simp add: verify_token_def get_public_key_def get_jwks_def ex_cached_def ex_keys_def
        HTTP_401_UNAUTHORIZED_def)

text \<open>
  C5, as the code has it.  When the cache is empty and the fetch of the key set fails,
  \<open>verify_token\<close> returns no claim set: the exception of the fetch leaves it as it is,
  \<open>URLError\<close> for a failed connection, \<open>JSONDecodeError\<close> for a body that is not JSON,
  \<open>KeyError\<close> for a document without \<open>"keys"\<close>.  None of them is an
  \<open>HTTPException\<close>.  After the first two the cache is still empty; the document
  without \<open>"keys"\<close> is cached.
\<close>

theorem fetch_failure_unhandled:
  assumes "cache st = None"
  shows "verify_token lib FetchFails now (Token hk p sg) st
           = (Inl URLError, st\<lparr>fetches := fetches st + 1\<rparr>)
       \<and> verify_token lib BodyNotJson now (Token hk p sg) st
           = (Inl JSONDecodeError, st\<lparr>fetches := fetches st + 1\<rparr>)
       \<and> verify_token lib (Body None) now (Token hk p sg) st
           = (Inl (KeyError ''keys''), st\<lparr>cache := Some None, fetches := fetches st + 1\<rparr>)
       \<and> \<not> is_http URLError \<and> \<not> is_http JSONDecodeError \<and> \<not> is_http (KeyError ''keys'')"
  using assms by (simp add: verify_token_def get_public_key_def get_jwks_def)

theorem fetch_failure_unhandled_witness:
  "cache ex_empty = None
   \<and> verify_token ex_lib FetchFails 1000 (Token (Some ''old'') ex_claims (Some 1)) ex_empty
       = (Inl URLError, \<lparr>cache = None, fetches = 1\<rparr>)"
proof -
  have e: "cache ex_empty = None" by (simp add: ex_empty_def)
  show ?thesis
    using e fetch_failure_unhandled [OF e, of ex_lib 1000 "Some ''old''" ex_claims "Some 1"]
    by (simp add: ex_empty_def)
qed

text \<open>
  C5 as stated fails: with an empty cache and a failing fetch, a correctly signed token
  makes \<open>verify_token\<close> end in \<open>URLError\<close>, which is not an \<open>HTTPException\<close>.
\<close>

theorem fetch_failure_counterexample:
  "fst (verify_token ex_lib FetchFails 1000 (Token (Some ''old'') ex_claims (Some 1)) ex_empty)
     = Inl URLError
   \<and> \<not> is_http URLError"
  by (simp add: verify_token_def get_public_key_def get_jwks_def ex_empty_def)

text \<open>
  C6, as the code has it.  A token whose key identifier is not in the cached key set
  and a token whose signature does not verify under the key found are both rejected
  with status 401, but with different \<open>detail\<close> strings in the response body:
  "Public key not found" and "Signature verification failed".
\<close>

theorem failure_details_differ:
  assumes "cache st = Some (Some keys)"
    and "\<forall>key \<in> set keys. jwk_kid key \<noteq> None \<and> jwk_kid key \<noteq> Some k"
    and "find_key hk keys = Inr pk" "sg \<noteq> Some pk"
  shows "fst (verify_token lib net now (Token (Some k) p1 sg1) st)
           = Inl (HTTPException HTTP_401_UNAUTHORIZED ''Public key not found'')
       \<and> fst (verify_token lib net now (Token hk p2 sg) st)
           = Inl (HTTPException HTTP_401_UNAUTHORIZED ''Signature verification failed'')
       \<and> fst (verify_token lib net now (Token (Some k) p1 sg1) st)
           \<noteq> fst (verify_token lib net now (Token hk p2 sg) st)"
  using assms(1,3,4) find_key_absent [OF assms(2)]
  by (simp add: verify_token_def get_public_key_cached jwt_decode_def)

theorem failure_details_differ_witness:
  "cache ex_cached = Some (Some ex_keys)
   \<and> list_all (\<lambda>key. jwk_kid key \<noteq> None \<and> jwk_kid key \<noteq> Some ''new'') ex_keys
   \<and> find_key (Some ''old'') ex_keys = Inr 1 \<and> Some 2 \<noteq> Some (1::nat)
   \<and> fst (verify_token ex_lib FetchFails 1000 (Token (Some ''new'') ex_claims (Some 2)) ex_cached)
       = Inl (HTTPException HTTP_401_UNAUTHORIZED ''Public key not found'')
   \<and> fst (verify_token ex_lib FetchFails 1000 (Token (Some ''old'') ex_claims (Some 2)) ex_cached)
       = Inl (HTTPException HTTP_401_UNAUTHORIZED ''Signature verification failed'')"
proof -
  have c: "cache ex_cached = Some (Some ex_keys)" by (simp add: ex_cached_def)
  have n: "Some 2 \<noteq> Some (1::nat)" by simp
  show ?thesis
    using c ex_keys_no_new ex_keys_old n
      failure_details_differ [OF c ex_keys_no_new ex_keys_old n,
        of ex_lib FetchFails 1000 ex_claims "Some 2" ex_claims]
    by (simp add: list_all_iff)
qed

text \<open>
  C6 as stated fails: the two rejections, one for a key that is not found and one for
  a signature that does not verify, are different responses.
\<close>

theorem failure_indistinguishable_counterexample:
  "fst (verify_token ex_lib FetchFails 1000 (Token (Some ''new'') ex_claims (Some 2)) ex_cached)
     = Inl (HTTPException 401 ''Public key not found'')
   \<and> fst (verify_token ex_lib FetchFails 1000 (Token (Some ''old'') ex_claims (Some 2)) ex_cached)
       = Inl (HTTPException 401 ''Signature verification failed'')
   \<and> fst (verify_token ex_lib FetchFails 1000 (Token (Some ''new'') ex_claims (Some 2)) ex_cached)
       \<noteq> fst (verify_token ex_lib FetchFails 1000 (Token (Some ''old'') ex_claims (Some 2))
                ex_cached)"
  by (simp add: verify_token_def get_public_key_def get_jwks_def jwt_decode_def ex_cached_def
        ex_keys_def HTTP_401_UNAUTHORIZED_def)

text \<open>
  C8, as the code has it.  A token whose key identifier resolves to a key of the key
  set, whose signature verifies under that key, whose expiry claim lies after the
  current time, and whose other registered claims pass the library's checks (\<open>iat\<close>
  and \<open>nbf\<close> not in the future, \<open>sub\<close> and \<open>jti\<close> strings, each when present) is
  accepted, and \<open>verify_token\<close> returns its payload unchanged.  The audience claim
  plays no part: the same holds with any audience claim put in front of the payload.
\<close>

theorem verify_returns_claims_ignoring_audience:
  assumes "key_set_known net st keys" "find_key hk keys = Inr pk"
    and "unexpired lib now p" "registered_claims_ok lib now p"
  shows "fst (verify_token lib net now (Token hk p (Some pk)) st) = Inr p
       \<and> (\<forall>aud. fst (verify_token lib net now (Token hk ((''aud'', aud) # p) (Some pk)) st)
                  = Inr ((''aud'', aud) # p))"
proof
  show "fst (verify_token lib net now (Token hk p (Some pk)) st) = Inr p"
    using assms by (rule verify_token_valid)
next
  show "\<forall>aud. fst (verify_token lib net now (Token hk ((''aud'', aud) # p) (Some pk)) st)
                  = Inr ((''aud'', aud) # p)"
  proof
    fix aud
    have "unexpired lib now ((''aud'', aud) # p)"
      and "registered_claims_ok lib now ((''aud'', aud) # p)"
      using assms(3,4) by (simp_all add: audience_irrelevant)
    then show "fst (verify_token lib net now (Token hk ((''aud'', aud) # p) (Some pk)) st)
                  = Inr ((''aud'', aud) # p)"
      using assms(1,2) by (intro verify_token_valid)
  qed
qed

theorem verify_returns_claims_witness:
  "key_set_known FetchFails ex_cached ex_keys \<and> find_key (Some ''old'') ex_keys = Inr 1
   \<and> unexpired ex_lib 1000 ex_claims \<and> registered_claims_ok ex_lib 1000 ex_claims
   \<and> fst (verify_token ex_lib FetchFails 1000 (Token (Some ''old'') ex_claims (Some 1))
            ex_cached)
       = Inr ex_claims
   \<and> fst (verify_token ex_lib FetchFails 1000
             (Token (Some ''old'') ((''aud'', JStr ''other-service'') # ex_claims) (Some 1))
             ex_cached)
       = Inr ((''aud'', JStr ''other-service'') # ex_claims)"
proof -
  have k: "key_set_known FetchFails ex_cached ex_keys"
    by (simp add: key_set_known_def ex_cached_def)
  show ?thesis
    using k ex_keys_old ex_claims_ok
      verify_returns_claims_ignoring_audience [OF k ex_keys_old ex_claims_ok]
    by simp
qed

text \<open>
  C8 as stated fails: a token signed by a known key, with an expiry claim after the
  current time and a not-before claim after it too, is rejected with 401, by the
  oldest library as by a recent one.
\<close>

theorem not_yet_valid_counterexample:
  "key_set_known FetchFails ex_cached ex_keys \<and> find_key (Some ''old'') ex_keys = Inr 1
   \<and> unexpired ex_lib 1000 ex_immature
   \<and> fst (verify_token ex_lib FetchFails 1000 (Token (Some ''old'') ex_immature (Some 1))
            ex_cached)
       = Inl (HTTPException 401 ''The token is not yet valid (nbf)'')
   \<and> fst (verify_token (ex_lib\<lparr>validates_iat_future := False, validates_sub_jti := False\<rparr>)
            FetchFails 1000 (Token (Some ''old'') ex_immature (Some 1)) ex_cached)
       = Inl (HTTPException 401 ''The token is not yet valid (nbf)'')"
  by (simp add: key_set_known_def unexpired_def verify_token_def get_public_key_def get_jwks_def
        jwt_decode_def validate_claims_def validate_iat_def validate_nbf_def ex_cached_def
        ex_keys_def ex_immature_def ex_lib_def HTTP_401_UNAUTHORIZED_def)

section \<open>Tenant activation\<close>

lemma select_no_match:
  "no_user_matches cu db \<Longrightarrow> select_users_by_sub (map_of cu ''sub'') (users db) = Inr []"
  by (auto simp: no_user_matches_def list_all_iff filter_empty_conv
        split: option.splits jval.splits)

lemma get_tenant_db_unprovisioned:
  "no_user_matches cu db \<Longrightarrow>
   get_tenant_db cu db = (Inl not_provisioned, execute_query Users db)"
  by (simp add: get_tenant_db_def select_no_match Let_def not_provisioned_def)

lemma absent_sub_no_match: "map_of cu ''sub'' = None \<Longrightarrow> no_user_matches cu db"
  by (simp add: no_user_matches_def)

lemma numeric_sub_raises:
  "map_of cu ''sub'' = Some (JNum n) \<Longrightarrow> get_tenant_db cu db = (Inl ProgrammingError, db)"
  by (simp add: get_tenant_db_def)

lemma get_tenant_db_never_yields: "fst (get_tenant_db cu db) \<noteq> Inr user"
  by (auto simp: get_tenant_db_def Let_def split: sum.splits option.splits)

lemma get_tenant_db_local:
  "local_settings (snd (get_tenant_db cu db)) = local_settings db"
  by (auto simp: get_tenant_db_def Let_def execute_query_def split: sum.splits option.splits)

lemma get_tenant_db_users: "users (snd (get_tenant_db cu db)) = users db"
  by (auto simp: get_tenant_db_def Let_def execute_query_def split: sum.splits option.splits)

lemma ex_db_lookup:
  "get_tenant_db ex_claims ex_db = (Inl ProgrammingError, execute_query Users ex_db)"
  by (simp add: get_tenant_db_def Let_def ex_claims_def ex_db_def ex_user_def)

text \<open>
  C1 fails on the code.  For a provisioned user \<open>get_tenant_db\<close> finds the row and
  then sends \<open>SET LOCAL\<close> with the company bound to \<open>:cid\<close>; the store refuses the
  statement, so the request ends in \<open>ProgrammingError\<close>, the marker is not set and the
  handler does not run.  For no claim set and no state of the tables does
  \<open>get_tenant_db\<close> yield a session, and it never changes the local settings.
\<close>

theorem marker_never_set:
  "get_tenant_db ex_claims ex_db = (Inl ProgrammingError, execute_query Users ex_db)
   \<and> current_setting marker (snd (get_tenant_db ex_claims ex_db)) = None
   \<and> fst (tenant_request ex_claims [Roles] Commit ex_db) = Inl ProgrammingError
   \<and> (\<forall>user. fst (get_tenant_db current_user db) \<noteq> Inr user)
   \<and> local_settings (snd (get_tenant_db current_user db)) = local_settings db"
proof (intro conjI allI)
  show "get_tenant_db ex_claims ex_db = (Inl ProgrammingError, execute_query Users ex_db)"
    by (rule ex_db_lookup)
  show "current_setting marker (snd (get_tenant_db ex_claims ex_db)) = None"
    unfolding ex_db_lookup by (simp add: current_setting_def execute_query_def ex_db_def)
  show "fst (tenant_request ex_claims [Roles] Commit ex_db) = Inl ProgrammingError"
    by (simp add: tenant_request_def ex_db_lookup)
  show "fst (get_tenant_db current_user db) \<noteq> Inr user" for user
    by (rule get_tenant_db_never_yields)
  show "local_settings (snd (get_tenant_db current_user db)) = local_settings db"
    by (rule get_tenant_db_local)
qed

text \<open>
  C3.  When the subject of the claim set is a string that no row of the users table
  carries (or is null or absent), \<open>get_tenant_db\<close> fails with 401 after its lookup:
  the users table and the local settings are as before, the only statement executed
  is the lookup, and the request ends with that failure.
\<close>

theorem unprovisioned_subject_rejected:
  assumes "no_user_matches current_user db"
  shows "get_tenant_db current_user db = (Inl not_provisioned, execute_query Users db)
       \<and> status_code not_provisioned = Some 401
       \<and> users (execute_query Users db) = users db
       \<and> local_settings (execute_query Users db) = local_settings db
       \<and> executed (execute_query Users db) = executed db @ [Query Users]
       \<and> tenant_request current_user handler fin db
           = (Inl not_provisioned, end_transaction fin (execute_query Users db))"
  using get_tenant_db_unprovisioned [OF assms]
  by (simp add: tenant_request_def execute_query_def not_provisioned_def HTTP_401_UNAUTHORIZED_def)

theorem unprovisioned_subject_rejected_witness:
  "no_user_matches [(''sub'', JStr ''sub-999'')] ex_db
   \<and> get_tenant_db [(''sub'', JStr ''sub-999'')] ex_db
       = (Inl (HTTPException 401 ''User not provisioned. Contact your administrator.''),
          execute_query Users ex_db)
   \<and> users (execute_query Users ex_db) = [ex_user]
   \<and> local_settings (execute_query Users ex_db) = []"
proof -
  have n: "no_user_matches [(''sub'', JStr ''sub-999'')] ex_db"
    by (simp add: no_user_matches_def ex_db_def ex_user_def)
  show ?thesis
    using n unprovisioned_subject_rejected [OF n, of "[]" Rollback]
    by (simp add: not_provisioned_def HTTP_401_UNAUTHORIZED_def execute_query_def ex_db_def)
qed

text \<open>
  C9.  A claim set without a subject claim matches no user: \<open>get_tenant_db\<close> fails with
  401 and sets no marker.  \<open>verify_token\<close> does not ask for a subject claim: a token
  with such a payload, signed by a known key, not expired and with its other
  registered claims in order, is accepted.
\<close>

theorem absent_subject_rejected:
  assumes "map_of current_user ''sub'' = None"
  shows "get_tenant_db current_user db = (Inl not_provisioned, execute_query Users db)
       \<and> status_code not_provisioned = Some 401
       \<and> local_settings (execute_query Users db) = local_settings db
       \<and> (key_set_known net st keys \<and> find_key hk keys = Inr pk
            \<and> unexpired lib now current_user \<and> registered_claims_ok lib now current_user \<longrightarrow>
          fst (verify_token lib net now (Token hk current_user (Some pk)) st) = Inr current_user)"
  using get_tenant_db_unprovisioned [OF absent_sub_no_match [OF assms], of db]
    verify_token_valid [of net st keys hk pk lib now current_user]
  by (simp add: execute_query_def not_provisioned_def HTTP_401_UNAUTHORIZED_def)

theorem absent_subject_rejected_witness:
  "map_of [(''exp'', JNum 2000)] ''sub'' = None
   \<and> get_tenant_db [(''exp'', JNum 2000)] ex_db
       = (Inl (HTTPException 401 ''User not provisioned. Contact your administrator.''),
          execute_query Users ex_db)
   \<and> key_set_known FetchFails ex_cached ex_keys \<and> find_key (Some ''old'') ex_keys = Inr 1
   \<and> unexpired ex_lib 1000 [(''exp'', JNum 2000)]
   \<and> registered_claims_ok ex_lib 1000 [(''exp'', JNum 2000)]
   \<and> fst (verify_token ex_lib FetchFails 1000
             (Token (Some ''old'') [(''exp'', JNum 2000)] (Some 1)) ex_cached)
       = Inr [(''exp'', JNum 2000)]"
proof -
  have a: "map_of [(''exp'', JNum 2000)] ''sub'' = None" by simp
  have k: "key_set_known FetchFails ex_cached ex_keys"
    by (simp add: key_set_known_def ex_cached_def)
  have x: "unexpired ex_lib 1000 [(''exp'', JNum 2000)]" by (simp add: unexpired_def)
  have r: "registered_claims_ok ex_lib 1000 [(''exp'', JNum 2000)]"
    by (simp add: registered_claims_ok_def)
  show ?thesis
    using a k ex_keys_old x r
      absent_subject_rejected [OF a, of ex_db FetchFails ex_cached ex_keys "Some ''old''" 1
        ex_lib 1000]
    by (simp add: not_provisioned_def HTTP_401_UNAUTHORIZED_def)
qed

section \<open>Provisioning and the bootstrap script\<close>

lemma scalar_one_or_none_Some:
  "scalar_one_or_none xs = Inr (Some x) \<Longrightarrow> xs = [x]"
  by (cases xs rule: scalar_one_or_none.cases) auto

lemma promote_sets:
  "u \<in> set us \<Longrightarrow> cognito_sub u = sub \<Longrightarrow>
   \<exists>v \<in> set (promote sub us). cognito_sub v = sub \<and> is_superadmin v"
  by (induction us) auto

lemma get_or_create_platform_users:
  "get_or_create_platform fc db = Inr (pl, db1) \<Longrightarrow> users db1 = users db"
  by (auto simp: get_or_create_platform_def Let_def split: sum.splits option.splits)

lemma seed_platform_error:
  "get_or_create_platform fc db = Inl e \<Longrightarrow> seed sub mail fc fu db = (Inl e, db)"
  by (simp add: seed_def)

lemma seed_lookup_error:
  "get_or_create_platform fc db = Inr (pl, db1) \<Longrightarrow>
   scalar_one_or_none (filter (\<lambda>u. cognito_sub u = sub) (users db1)) = Inl e \<Longrightarrow>
   seed sub mail fc fu db = (Inl e, db)"
  by (simp add: seed_def)

lemma seed_created:
  "get_or_create_platform fc db = Inr (pl, db1) \<Longrightarrow>
   scalar_one_or_none (filter (\<lambda>u. cognito_sub u = sub) (users db1)) = Inr None \<Longrightarrow>
   users (snd (seed sub mail fc fu db))
     = users db1 @ [(new_User fu sub mail (c_id pl))\<lparr>is_superadmin := True\<rparr>]"
  by (simp add: seed_def)

lemma seed_existing:
  "get_or_create_platform fc db = Inr (pl, db1) \<Longrightarrow>
   scalar_one_or_none (filter (\<lambda>u. cognito_sub u = sub) (users db1)) = Inr (Some existing) \<Longrightarrow>
   users (snd (seed sub mail fc fu db))
     = (if is_superadmin existing then users db else promote sub (users db1))"
  by (simp add: seed_def)

lemma seed_superadmin:
  assumes "fst (seed sub mail fc fu db) = Inr msg"
  shows "\<exists>u \<in> set (users (snd (seed sub mail fc fu db))). cognito_sub u = sub \<and> is_superadmin u"
proof (cases "get_or_create_platform fc db")
  case (Inl e)
  then show ?thesis using assms seed_platform_error [OF Inl, of sub mail fu] by simp
next
  case (Inr found)
  obtain pl db1 where f: "get_or_create_platform fc db = Inr (pl, db1)"
    using Inr by (cases found) auto
  have u1: "users db1 = users db"
    using f by (rule get_or_create_platform_users)
  show ?thesis
  proof (cases "scalar_one_or_none (filter (\<lambda>u. cognito_sub u = sub) (users db1))")
    case (Inl e)
    then show ?thesis using assms seed_lookup_error [OF f Inl, of mail fu] by simp
  next
    case r: (Inr ex)
    show ?thesis
    proof (cases ex)
      case None
      have "users (snd (seed sub mail fc fu db))
              = users db1 @ [(new_User fu sub mail (c_id pl))\<lparr>is_superadmin := True\<rparr>]"
        using f r None by (simp add: seed_created)
      then show ?thesis by (simp add: new_User_def)
    next
      case (Some existing)
      have l: "scalar_one_or_none (filter (\<lambda>u. cognito_sub u = sub) (users db1))
                 = Inr (Some existing)"
        using r Some by simp
      have "filter (\<lambda>u. cognito_sub u = sub) (users db1) = [existing]"
        using l by (rule scalar_one_or_none_Some)
      then have "existing \<in> set (filter (\<lambda>u. cognito_sub u = sub) (users db1))" by simp
      then have m: "existing \<in> set (users db1)" "cognito_sub existing = sub" by auto
      show ?thesis
      proof (cases "is_superadmin existing")
        case True
        have "users (snd (seed sub mail fc fu db)) = users db"
          using seed_existing [OF f l, of mail fu] True by simp
        then show ?thesis using m True u1 by auto
      next
        case False
        have "users (snd (seed sub mail fc fu db)) = promote sub (users db1)"
          using seed_existing [OF f l, of mail fu] False by simp
        then show ?thesis using promote_sets [OF m] by simp
      qed
    qed
  qed
qed

lemma provision_user_created:
  "provision_user cid body cg fresh db = (Inr u, db') \<Longrightarrow>
   u = new_User fresh (body_cognito_sub body) (body_email body) cid \<and> users db' = users db @ [u]"
  by (auto simp: provision_user_def Let_def execute_query_def
        split: sum.splits option.splits admin_get_user_result.splits if_splits)

lemma provision_user_users:
  "users (snd (provision_user cid body cg fresh db)) = users db
 \<or> users (snd (provision_user cid body cg fresh db))
      = users db @ [new_User fresh (body_cognito_sub body) (body_email body) cid]"
  by (auto simp: provision_user_def Let_def execute_query_def
        split: sum.splits option.splits admin_get_user_result.splits if_splits)

lemma create_company_users: "users (snd (create_company body fresh db)) = users db"
  by (auto simp: create_company_def Let_def execute_query_def
        split: sum.splits option.splits)

text \<open>
  C10.  A user returned by \<open>provision_user\<close> is the row it has just added, with
  \<open>is_superadmin\<close> false and \<open>is_active\<close> true.  Whatever their outcome,
  \<open>provision_user\<close> leaves the super-admin rows of the users table as they were, and
  \<open>create_company\<close> and \<open>get_tenant_db\<close> leave the users table as it was.  The seed
  script is the path that sets the flag: when it ends without an exception, a user
  with the given subject is a super-admin.
\<close>

theorem provisioning_never_mints_superadmin:
  "(provision_user cid body cg fresh db = (Inr u, db') \<longrightarrow>
      \<not> is_superadmin u \<and> is_active u \<and> users db' = users db @ [u])
 \<and> filter is_superadmin (users (snd (provision_user cid body cg fresh db)))
      = filter is_superadmin (users db)
 \<and> users (snd (create_company cbody fresh db)) = users db
 \<and> users (snd (get_tenant_db current_user db)) = users db
 \<and> (fst (seed sub mail fc fu db) = Inr msg \<longrightarrow>
      (\<exists>s \<in> set (users (snd (seed sub mail fc fu db))). cognito_sub s = sub \<and> is_superadmin s))"
proof (intro conjI impI)
  assume p: "provision_user cid body cg fresh db = (Inr u, db')"
  show "\<not> is_superadmin u" "is_active u" "users db' = users db @ [u]"
    using provision_user_created [OF p] by (simp_all add: new_User_def)
next
  show "filter is_superadmin (users (snd (provision_user cid body cg fresh db)))
      = filter is_superadmin (users db)"
    using provision_user_users [of cid body cg fresh db] by (auto simp: new_User_def)
next
  show "users (snd (create_company cbody fresh db)) = users db"
    by (rule create_company_users)
next
  show "users (snd (get_tenant_db current_user db)) = users db"
    by (rule get_tenant_db_users)
next
  assume "fst (seed sub mail fc fu db) = Inr msg"
  then show "\<exists>s \<in> set (users (snd (seed sub mail fc fu db))). cognito_sub s = sub \<and> is_superadmin s"
    by (rule seed_superadmin)
qed

theorem provisioning_never_mints_superadmin_witness:
  "provision_user ''c1'' ex_body CognitoUser ''u2'' ex_db
     = (Inr (new_User ''u2'' ''sub-456'' ''b@example.org'' ''c1''),
        snd (provision_user ''c1'' ex_body CognitoUser ''u2'' ex_db))
   \<and> \<not> is_superadmin (new_User ''u2'' ''sub-456'' ''b@example.org'' ''c1'')
   \<and> is_active (new_User ''u2'' ''sub-456'' ''b@example.org'' ''c1'')
   \<and> users (snd (provision_user ''c1'' ex_body CognitoUser ''u2'' ex_db))
       = users ex_db @ [new_User ''u2'' ''sub-456'' ''b@example.org'' ''c1'']
   \<and> fst (seed ''sub-123'' ''a@example.org'' ''c0'' ''u0'' ex_db)
       = Inr ''User a@example.org promoted to super-admin.''
   \<and> (\<exists>s \<in> set (users (snd (seed ''sub-123'' ''a@example.org'' ''c0'' ''u0'' ex_db))).
         cognito_sub s = ''sub-123'' \<and> is_superadmin s)"
proof -
  have p: "provision_user ''c1'' ex_body CognitoUser ''u2'' ex_db
     = (Inr (new_User ''u2'' ''sub-456'' ''b@example.org'' ''c1''),
        snd (provision_user ''c1'' ex_body CognitoUser ''u2'' ex_db))"
    by (simp add: provision_user_def Let_def execute_query_def ex_db_def ex_body_def ex_user_def)
  have g: "get_or_create_platform ''c0'' ex_db
     = Inr (\<lparr>c_id = ''c0'', c_name = PLATFORM_COMPANY_NAME, c_slug = PLATFORM_COMPANY_SLUG\<rparr>,
            ex_db\<lparr>companies := companies ex_db @
               [\<lparr>c_id = ''c0'', c_name = PLATFORM_COMPANY_NAME,
                  c_slug = PLATFORM_COMPANY_SLUG\<rparr>]\<rparr>)"
    by (simp add: get_or_create_platform_def Let_def ex_db_def PLATFORM_COMPANY_SLUG_def)
  have l: "scalar_one_or_none (filter (\<lambda>u. cognito_sub u = ''sub-123'') (users ex_db))
             = Inr (Some ex_user)"
    by (simp add: ex_db_def ex_user_def)
  have n: "\<not> is_superadmin ex_user" by (simp add: ex_user_def)
  have s: "fst (seed ''sub-123'' ''a@example.org'' ''c0'' ''u0'' ex_db)
       = Inr ''User a@example.org promoted to super-admin.''"
    by (simp add: seed_def g l n)
  note t = provisioning_never_mints_superadmin
    [of "''c1''" ex_body CognitoUser "''u2''" ex_db
        "new_User ''u2'' ''sub-456'' ''b@example.org'' ''c1''"
        "snd (provision_user ''c1'' ex_body CognitoUser ''u2'' ex_db)"
        "\<lparr>body_name = ''x'', body_slug = ''x''\<rparr>" "[]"
        "''sub-123''" "''a@example.org''" "''c0''" "''u0''"
        "''User a@example.org promoted to super-admin.''"]
  note a = t [THEN conjunct1, THEN mp, OF p]
  note b = t [THEN conjunct2, THEN conjunct2, THEN conjunct2, THEN conjunct2, THEN mp, OF s]
  show ?thesis
    by (intro conjI p a [THEN conjunct1] a [THEN conjunct2, THEN conjunct1]
          a [THEN conjunct2, THEN conjunct2] s b)
qed

section \<open>The super-admin gate and the permission check, against the spec\<close>



lemma has_permission_iff:
  "has_permission u c n db \<longleftrightarrow>
     (\<exists>ur \<in> set (user_roles db). \<exists>rp \<in> set (role_permissions db). \<exists>p \<in> set (permissions db).
        ur_user_id ur = u \<and> ur_company_id ur = c \<and> rp_role_id rp = ur_role_id ur
      \<and> p_id p = rp_permission_id rp \<and> p_name p = n)"
  unfolding has_permission_def list_ex_iff by blast

lemma distinct_names:
  "distinct (map p_name ps) \<Longrightarrow> p \<in> set ps \<Longrightarrow> q \<in> set ps \<Longrightarrow> p_name p = p_name q \<Longrightarrow> p = q"
  by (meson distinct_map inj_onD)

text \<open>
  C7.  \<open>has_permission\<close> holds exactly when a UserRole row of the user in the company
  is joined, through a RolePermission row of the same role, to a Permission row of the
  given name.  With permission names unique, as the store enforces: from a state where
  the check is false, granting the RolePermission and then the UserRole makes it true,
  and revoking either of the two makes it false again.
\<close>

theorem has_permission_monotonic:
  "(has_permission u c n db \<longleftrightarrow>
     (\<exists>ur \<in> set (user_roles db). \<exists>rp \<in> set (role_permissions db). \<exists>q \<in> set (permissions db).
        ur_user_id ur = u \<and> ur_company_id ur = c \<and> rp_role_id rp = ur_role_id ur
      \<and> p_id q = rp_permission_id rp \<and> p_name q = n))
   \<and> (\<not> has_permission u c n db \<and> distinct (map p_name (permissions db))
        \<and> p \<in> set (permissions db) \<and> p_name p = n \<longrightarrow>
      has_permission u c n (grant_user_role u r c (grant_role_permission r (p_id p) db))
      \<and> \<not> has_permission u c n
            (revoke_user_role u r (grant_user_role u r c (grant_role_permission r (p_id p) db)))
      \<and> \<not> has_permission u c n
            (revoke_role_permission r (p_id p)
               (grant_user_role u r c (grant_role_permission r (p_id p) db))))"
proof (intro conjI impI)
  show "has_permission u c n db \<longleftrightarrow>
     (\<exists>ur \<in> set (user_roles db). \<exists>rp \<in> set (role_permissions db). \<exists>q \<in> set (permissions db).
        ur_user_id ur = u \<and> ur_company_id ur = c \<and> rp_role_id rp = ur_role_id ur
      \<and> p_id q = rp_permission_id rp \<and> p_name q = n)"
    by (rule has_permission_iff)
next
  assume "\<not> has_permission u c n db \<and> distinct (map p_name (permissions db))
        \<and> p \<in> set (permissions db) \<and> p_name p = n"
  then show "has_permission u c n (grant_user_role u r c (grant_role_permission r (p_id p) db))"
    by (auto simp: has_permission_iff grant_user_role_def grant_role_permission_def)
next
  assume "\<not> has_permission u c n db \<and> distinct (map p_name (permissions db))
        \<and> p \<in> set (permissions db) \<and> p_name p = n"
  then have "\<not> has_permission u c n db" by simp
  then show "\<not> has_permission u c n
         (revoke_user_role u r (grant_user_role u r c (grant_role_permission r (p_id p) db)))"
    by (auto simp: has_permission_iff grant_user_role_def grant_role_permission_def
          revoke_user_role_def)
next
  assume h: "\<not> has_permission u c n db \<and> distinct (map p_name (permissions db))
        \<and> p \<in> set (permissions db) \<and> p_name p = n"
  let ?db = "revoke_role_permission r (p_id p)
               (grant_user_role u r c (grant_role_permission r (p_id p) db))"
  have urs: "set (user_roles ?db)
               = insert \<lparr>ur_user_id = u, ur_role_id = r, ur_company_id = c\<rparr>
                   (set (user_roles db))"
    by (simp add: grant_user_role_def grant_role_permission_def revoke_role_permission_def)
  have rps: "set (role_permissions ?db)
               = {x \<in> set (role_permissions db).
                    \<not> (rp_role_id x = r \<and> rp_permission_id x = p_id p)}"
    by (auto simp: grant_user_role_def grant_role_permission_def revoke_role_permission_def)
  have ps: "permissions ?db = permissions db"
    by (simp add: grant_user_role_def grant_role_permission_def revoke_role_permission_def)
  show "\<not> has_permission u c n ?db"
  proof
    assume "has_permission u c n ?db"
    then obtain ur rp q where ur: "ur \<in> set (user_roles ?db)"
      and rp: "rp \<in> set (role_permissions ?db)" and q: "q \<in> set (permissions ?db)"
      and j: "ur_user_id ur = u" "ur_company_id ur = c" "rp_role_id rp = ur_role_id ur"
        "p_id q = rp_permission_id rp" "p_name q = n"
      unfolding has_permission_iff by blast
    have q': "q \<in> set (permissions db)" using q ps by simp
    have "q = p"
      using distinct_names [of "permissions db" q p] h q' j(5) by simp
    then have perm: "rp_permission_id rp = p_id p" using j(4) by simp
    have rp': "rp \<in> set (role_permissions db)" and nr: "rp_role_id rp \<noteq> r"
      using rp rps perm by auto
    have "ur \<in> set (user_roles db)"
      using ur urs nr j(3) by auto
    then have "has_permission u c n db"
      unfolding has_permission_iff using rp' q' j by blast
    then show False using h by simp
  qed
qed

theorem has_permission_monotonic_witness:
  "\<not> has_permission ''u1'' ''c1'' ''settings:read'' ex_db
   \<and> distinct (map p_name (permissions ex_db))
   \<and> ex_permission \<in> set (permissions ex_db) \<and> p_name ex_permission = ''settings:read''
   \<and> has_permission ''u1'' ''c1'' ''settings:read''
        (grant_user_role ''u1'' ''r1'' ''c1'' (grant_role_permission ''r1'' ''p1'' ex_db))
   \<and> \<not> has_permission ''u1'' ''c2'' ''settings:read''
        (grant_user_role ''u1'' ''r1'' ''c1'' (grant_role_permission ''r1'' ''p1'' ex_db))
   \<and> \<not> has_permission ''u1'' ''c1'' ''settings:read''
        (revoke_user_role ''u1'' ''r1''
           (grant_user_role ''u1'' ''r1'' ''c1'' (grant_role_permission ''r1'' ''p1'' ex_db)))
   \<and> \<not> has_permission ''u1'' ''c1'' ''settings:read''
        (revoke_role_permission ''r1'' ''p1''
           (grant_user_role ''u1'' ''r1'' ''c1'' (grant_role_permission ''r1'' ''p1'' ex_db)))"
proof -
  have h: "\<not> has_permission ''u1'' ''c1'' ''settings:read'' ex_db"
    by (simp add: has_permission_def ex_db_def)
  have d: "distinct (map p_name (permissions ex_db))" by (simp add: ex_db_def)
  have m: "ex_permission \<in> set (permissions ex_db)" by (simp add: ex_db_def ex_permission_def)
  have n: "p_name ex_permission = ''settings:read''" by (simp add: ex_permission_def)
  have i: "p_id ex_permission = ''p1''" by (simp add: ex_permission_def)
  note t = has_permission_monotonic [of "''u1''" "''c1''" "''settings:read''" ex_db
      ex_permission "''r1''"]
  note g = t [THEN conjunct2, THEN mp, OF conjI [OF h conjI [OF d conjI [OF m n]]],
      unfolded i]
  have other: "\<not> has_permission ''u1'' ''c2'' ''settings:read''
        (grant_user_role ''u1'' ''r1'' ''c1'' (grant_role_permission ''r1'' ''p1'' ex_db))"
    unfolding has_permission_monotonic [THEN conjunct1]
    by (simp add: grant_user_role_def grant_role_permission_def ex_db_def)
  show ?thesis
    by (intro conjI h d m n g [THEN conjunct1] other g [THEN conjunct2, THEN conjunct1]
          g [THEN conjunct2, THEN conjunct2])
qed

end
